theory Spec2Isabelle
  imports Complex_Main "HOL-Library.Word" "HOL-Library.Char_ord" "HOL-Library.List_Lexorder"
begin

section \<open>Data model (models/product.go, models/stock\_adjustment.go)\<close>

text \<open>
  Go's \<open>int\<close> is a 64-bit two's complement integer on the platforms the server is built
  for: \<open>+\<close> and \<open>-\<close> wrap around. It is modelled as a 64-bit word; \<open>sint\<close> reads the
  signed value. Go's \<open>float64\<close> is modelled by the real number it stands for (exact
  arithmetic, no rounding of the binary representation, no NaN or infinity); a Go
  \<open>string\<close> is its list of bytes. A reading of the clock (\<open>time.Now()\<close>) is a record of
  the parts the code looks at.
\<close>

type_synonym go_int = "64 word"
type_synonym float64 = real

record Time =
  Unix :: int
  Year :: go_int
  Month :: go_int

record PriceInfo =
  Latest :: float64
  Min_price :: float64
  Max_price :: float64
  Average :: float64
  AverageYTD :: float64
  AverageMTD :: float64
  YTDCount :: go_int
  YTDTotal :: float64
  YTDYear :: go_int
  MTDCount :: go_int
  MTDTotal :: float64
  MTDMonth :: go_int
  MTDYear :: go_int

record TierPrice =
  MinQuantity :: go_int
  MaxQuantity :: "go_int option"
  TierPrice_Price :: PriceInfo
  WholesalePrice :: float64

record Price =
  PurchaseVAT :: PriceInfo
  PurchaseNonVAT :: PriceInfo
  SaleVAT :: PriceInfo
  SaleNonVAT :: PriceInfo
  SalesTiers :: "TierPrice list"

record StockInfo =
  Purchased :: go_int
  Sold :: go_int
  Remaining :: go_int

record Stock =
  VAT :: StockInfo
  NonVAT :: StockInfo
  ActualStock :: go_int

record Product =
  ID :: string
  SKUID :: string
  Code :: string
  Name :: string
  Description :: string
  Color :: string
  Size :: string
  Category :: string
  QRData :: string
  ImageURL :: "string option"
  Price :: Price
  Stock :: Stock
  CreatedAt :: Time
  UpdatedAt :: Time

text \<open>
  \<open>StockAdjustmentType\<close>, \<open>StockType\<close> and \<open>SourceType\<close> are Go string types with named
  constants; a value of these types can be any string.
\<close>

type_synonym StockAdjustmentType = string
type_synonym StockType = string
type_synonym SourceType = string

definition AdjustmentTypeAdd :: StockAdjustmentType where
  "AdjustmentTypeAdd = ''add''"

definition AdjustmentTypeReduce :: StockAdjustmentType where
  "AdjustmentTypeReduce = ''reduce''"

definition StockTypeVAT :: StockType where
  "StockTypeVAT = ''vat''"

definition StockTypeNonVAT :: StockType where
  "StockTypeNonVAT = ''nonvat''"

definition StockTypeActualStock :: StockType where
  "StockTypeActualStock = ''actualstock''"


definition SourceTypeSale :: SourceType where
  "SourceTypeSale = ''sale''"

definition SourceTypeAdjustment :: SourceType where
  "SourceTypeAdjustment = ''adjustment''"

definition SourceTypeMigration :: SourceType where
  "SourceTypeMigration = ''migration''"

section \<open>Stock ledger (handlers/stock\_adjustment\_handler.go)\<close>

text \<open>
  \<open>ApplyStockAdjustment\<close> mutates the product behind a pointer; the model returns the
  updated product. In the VAT / non-VAT branch the source takes a pointer \<open>stockInfo\<close> to
  \<open>product.Stock.VAT\<close> when the stock type is \<open>vat\<close> and to \<open>product.Stock.NonVAT\<close> for
  every other string; \<open>stockInfo_of\<close> reads through that pointer and \<open>stockInfo_upd\<close>
  writes through it. Every adjustment type other than \<open>add\<close> takes the reduce branch.
\<close>

definition stockInfo_of :: "StockType \<Rightarrow> Stock \<Rightarrow> StockInfo" where
  "stockInfo_of stockType s = (if stockType = StockTypeVAT then VAT s else NonVAT s)"

definition stockInfo_upd :: "StockType \<Rightarrow> StockInfo \<Rightarrow> Stock \<Rightarrow> Stock" where
  "stockInfo_upd stockType si s =
     (if stockType = StockTypeVAT then s\<lparr>VAT := si\<rparr> else s\<lparr>NonVAT := si\<rparr>)"

definition ApplyStockAdjustment ::
  "Product \<Rightarrow> StockAdjustmentType \<Rightarrow> StockType \<Rightarrow> go_int \<Rightarrow> Product" where
  "ApplyStockAdjustment product adjustmentType stockType quantity =
     (let s = Stock product in
      if stockType = StockTypeActualStock then
        (if adjustmentType = AdjustmentTypeAdd
         then product\<lparr>Stock := s\<lparr>ActualStock := ActualStock s + quantity\<rparr>\<rparr>
         else product\<lparr>Stock := s\<lparr>ActualStock := ActualStock s - quantity\<rparr>\<rparr>)
      else
        (let si = stockInfo_of stockType s in
         if adjustmentType = AdjustmentTypeAdd
         then product\<lparr>Stock :=
                (stockInfo_upd stockType
                   (si\<lparr>Purchased := Purchased si + quantity,
                       Remaining := Remaining si + quantity\<rparr>) s)
                \<lparr>ActualStock := ActualStock s + quantity\<rparr>\<rparr>
         else product\<lparr>Stock :=
                (stockInfo_upd stockType
                   (si\<lparr>Sold := Sold si + quantity,
                       Remaining := Remaining si - quantity\<rparr>) s)
                \<lparr>ActualStock := ActualStock s - quantity\<rparr>\<rparr>))"

text \<open>A stock whose seven counters are all zero (the zero value of the Go struct).\<close>

definition zero_stock :: Stock where
  "zero_stock =
     \<lparr>VAT = \<lparr>Purchased = 0, Sold = 0, Remaining = 0\<rparr>,
      NonVAT = \<lparr>Purchased = 0, Sold = 0, Remaining = 0\<rparr>,
      ActualStock = 0\<rparr>"


section \<open>Price ledger (models/product.go)\<close>

text \<open>
  The conversion \<open>int(x)\<close> of a \<open>float64\<close> discards the fraction (truncation towards
  zero). For a value outside the range of \<open>int\<close> the language leaves the result to the
  implementation; the model gives the amd64 result, the smallest \<open>int\<close>.
\<close>

definition float64_to_int :: "float64 \<Rightarrow> go_int" where
  "float64_to_int x =
     (let t = (if 0 \<le> x then \<lfloor>x\<rfloor> else \<lceil>x\<rceil>) in
      if - (2 ^ 63) \<le> t \<and> t < 2 ^ 63 then word_of_int t else word_of_int (- (2 ^ 63)))"

definition int_to_float64 :: "go_int \<Rightarrow> float64" where
  "int_to_float64 n = real_of_int (sint n)"

text \<open>
  The expression \<open>float64(int(x*100+0.5)) / 100\<close>, which \<open>UpdatePrice\<close> writes out three
  times (for \<open>Average\<close>, \<open>AverageYTD\<close> and \<open>AverageMTD\<close>).
\<close>

definition round2 :: "float64 \<Rightarrow> float64" where
  "round2 x = int_to_float64 (float64_to_int (x * 100 + 0.5)) / 100"

text \<open>
  The body of \<open>UpdatePrice\<close> after the bucket has been selected: the six numbered steps
  of the source, in order, on the \<open>PriceInfo\<close> behind the pointer. Where the incremented
  count is 0 the source divides a float by zero (an infinity or NaN); the model has no
  such values and yields HOL's \<open>x / 0 = 0\<close> there.
\<close>

definition updatePriceInfo :: "PriceInfo \<Rightarrow> float64 \<Rightarrow> go_int \<Rightarrow> go_int \<Rightarrow> PriceInfo" where
  "updatePriceInfo priceInfo newPrice currentYear currentMonth =
     (let i1 = priceInfo\<lparr>Latest := newPrice\<rparr>;
          i2 = (if Min_price i1 = 0 \<or> newPrice < Min_price i1
                then i1\<lparr>Min_price := newPrice\<rparr> else i1);
          i3 = (if newPrice > Max_price i2 then i2\<lparr>Max_price := newPrice\<rparr> else i2);
          i4 = (if Average i3 = 0 then i3\<lparr>Average := newPrice\<rparr>
                else i3\<lparr>Average := (Average i3 + newPrice) / 2\<rparr>);
          i5 = i4\<lparr>Average := round2 (Average i4)\<rparr>;
          i6 = (if YTDYear i5 \<noteq> currentYear
                then i5\<lparr>YTDYear := currentYear, YTDCount := 1,
                        YTDTotal := newPrice, AverageYTD := newPrice\<rparr>
                else
                  (let a = i5\<lparr>YTDCount := YTDCount i5 + 1,
                                YTDTotal := YTDTotal i5 + newPrice\<rparr>;
                       b = a\<lparr>AverageYTD := YTDTotal a / int_to_float64 (YTDCount a)\<rparr>
                   in b\<lparr>AverageYTD := round2 (AverageYTD b)\<rparr>))
      in if MTDYear i6 \<noteq> currentYear \<or> MTDMonth i6 \<noteq> currentMonth
         then i6\<lparr>MTDYear := currentYear, MTDMonth := currentMonth, MTDCount := 1,
                 MTDTotal := newPrice, AverageMTD := newPrice\<rparr>
         else
           (let a = i6\<lparr>MTDCount := MTDCount i6 + 1,
                         MTDTotal := MTDTotal i6 + newPrice\<rparr>;
                b = a\<lparr>AverageMTD := MTDTotal a / int_to_float64 (MTDCount a)\<rparr>
            in b\<lparr>AverageMTD := round2 (AverageMTD b)\<rparr>))"

text \<open>
  \<open>UpdatePrice\<close>: \<open>now\<close> is the value of \<open>time.Now()\<close>; the bucket is selected by
  \<open>isPurchase\<close> and \<open>isVAT\<close>, and only that bucket is written.
\<close>

definition UpdatePrice :: "Product \<Rightarrow> float64 \<Rightarrow> bool \<Rightarrow> bool \<Rightarrow> Time \<Rightarrow> Product" where
  "UpdatePrice p newPrice isVAT isPurchase now =
     (let currentYear = Year now;
          currentMonth = Month now;
          pr = Price p
      in if isPurchase then
           (if isVAT
            then p\<lparr>Price := pr\<lparr>PurchaseVAT :=
                   updatePriceInfo (PurchaseVAT pr) newPrice currentYear currentMonth\<rparr>\<rparr>
            else p\<lparr>Price := pr\<lparr>PurchaseNonVAT :=
                   updatePriceInfo (PurchaseNonVAT pr) newPrice currentYear currentMonth\<rparr>\<rparr>)
         else
           (if isVAT
            then p\<lparr>Price := pr\<lparr>SaleVAT :=
                   updatePriceInfo (SaleVAT pr) newPrice currentYear currentMonth\<rparr>\<rparr>
            else p\<lparr>Price := pr\<lparr>SaleNonVAT :=
                   updatePriceInfo (SaleNonVAT pr) newPrice currentYear currentMonth\<rparr>\<rparr>))"

text \<open>A price bucket with no history: the zero value of the Go struct.\<close>

definition zero_PriceInfo :: PriceInfo where
  "zero_PriceInfo =
     \<lparr>Latest = 0, Min_price = 0, Max_price = 0, Average = 0, AverageYTD = 0, AverageMTD = 0,
      YTDCount = 0, YTDTotal = 0, YTDYear = 0,
      MTDCount = 0, MTDTotal = 0, MTDMonth = 0, MTDYear = 0\<rparr>"

section \<open>Strings and numbers of the Go library\<close>

text \<open>
  The functions of Go's \<open>strings\<close>, \<open>strconv\<close> and \<open>fmt\<close> packages that the code calls.
  The case mappings and the white space test act on ASCII; bytes from 128 up are left as
  they are (Go maps by Unicode code point there).
\<close>

definition is_upper :: "char \<Rightarrow> bool" where
  "is_upper c = (CHR ''A'' \<le> c \<and> c \<le> CHR ''Z'')"

definition is_lower :: "char \<Rightarrow> bool" where
  "is_lower c = (CHR ''a'' \<le> c \<and> c \<le> CHR ''z'')"

definition is_digit :: "char \<Rightarrow> bool" where
  "is_digit c = (CHR ''0'' \<le> c \<and> c \<le> CHR ''9'')"

definition is_space :: "char \<Rightarrow> bool" where
  "is_space c = (c = CHR '' '' \<or> (CHR 0x09 \<le> c \<and> c \<le> CHR 0x0D))"

definition to_lower :: "char \<Rightarrow> char" where
  "to_lower c = (if is_upper c then char_of (of_char c + (32::nat)) else c)"

definition to_upper :: "char \<Rightarrow> char" where
  "to_upper c = (if is_lower c then char_of (of_char c - (32::nat)) else c)"

definition ToLower :: "string \<Rightarrow> string" where
  "ToLower s = map to_lower s"

definition ToUpper :: "string \<Rightarrow> string" where
  "ToUpper s = map to_upper s"

text \<open>\<open>strings.Fields\<close>: the maximal runs of bytes that are not white space.\<close>

fun Fields_from :: "string \<Rightarrow> string \<Rightarrow> string list" where
  "Fields_from w [] = (if w = [] then [] else [w])"
| "Fields_from w (c # cs) =
     (if is_space c then (if w = [] then Fields_from [] cs else w # Fields_from [] cs)
      else Fields_from (w @ [c]) cs)"

definition Fields :: "string \<Rightarrow> string list" where
  "Fields s = Fields_from [] s"

text \<open>The value of a string of decimal digits, and the decimal digits of a number.\<close>

definition digits_val :: "string \<Rightarrow> nat" where
  "digits_val s = foldl (\<lambda>acc c. 10 * acc + (of_char c - 48)) 0 s"

fun decimal :: "nat \<Rightarrow> string" where
  "decimal n =
     (if n < 10 then [char_of (48 + n)]
      else decimal (n div 10) @ [char_of (48 + n mod 10)])"

text \<open>
  \<open>strconv.Atoi\<close>: an optional sign, then one decimal digit or more and nothing else; a
  value outside the range of \<open>int\<close> is an error as well.
\<close>

definition Atoi :: "string \<Rightarrow> go_int option" where
  "Atoi s =
     (let signed = (s \<noteq> [] \<and> (hd s = CHR ''+'' \<or> hd s = CHR ''-''));
          ds = (if signed then tl s else s)
      in if ds = [] \<or> \<not> list_all is_digit ds then None
         else
           (let v = (if signed \<and> hd s = CHR ''-'' then - int (digits_val ds)
                     else int (digits_val ds))
            in if - (2 ^ 63) \<le> v \<and> v < 2 ^ 63 then Some (word_of_int v) else None))"

text \<open>The verbs \<open>%d\<close> and \<open>%04d\<close> of \<open>fmt\<close> on an \<open>int\<close>: the sign counts in the width.\<close>

definition fmt_d :: "go_int \<Rightarrow> string" where
  "fmt_d n = (if sint n < 0 then CHR ''-'' # decimal (nat (- sint n)) else decimal (nat (sint n)))"

definition fmt_04d :: "go_int \<Rightarrow> string" where
  "fmt_04d n =
     (if sint n < 0
      then CHR ''-'' # replicate (3 - length (decimal (nat (- sint n)))) CHR ''0''
             @ decimal (nat (- sint n))
      else replicate (4 - length (decimal (nat (sint n)))) CHR ''0'' @ decimal (nat (sint n)))"

text \<open>
  \<open>fmt.Sprintf(format, n)\<close> with one \<open>int\<close> operand, for the formats made of literal
  bytes, \<open>%%\<close> and \<open>%04d\<close>. The operand is \<open>Some n\<close> until a verb has used it. A second
  \<open>%04d\<close> finds no operand (\<open>%!d(MISSING)\<close>); an operand no verb used is reported at the
  end (\<open>%!(EXTRA int=n)\<close>). A \<open>%\<close> followed by anything else is outside the modelled
  fragment: the result is \<open>None\<close>.
\<close>

fun Sprintf_int :: "string \<Rightarrow> go_int option \<Rightarrow> string option" where
  "Sprintf_int [] None = Some []"
| "Sprintf_int [] (Some n) = Some (''%!(EXTRA int='' @ fmt_d n @ '')'')"
| "Sprintf_int (c # cs) arg =
     (if c \<noteq> CHR ''%'' then map_option ((#) c) (Sprintf_int cs arg)
      else if take 1 cs = ''%'' then map_option ((#) CHR ''%'') (Sprintf_int (drop 1 cs) arg)
      else if take 3 cs = ''04d'' then
        (case arg of
           Some n \<Rightarrow> map_option ((@) (fmt_04d n)) (Sprintf_int (drop 3 cs) None)
         | None \<Rightarrow> map_option ((@) ''%!d(MISSING)'') (Sprintf_int (drop 3 cs) None))
      else None)"

section \<open>Code generator (config/config\_loader.go, utils SKU generator)\<close>

record CategoryItem =
  Category_Name :: string
  Category_Abbreviation :: string
  Category_English :: string

text \<open>
  \<open>GetCategoryAbbreviation\<close>: the first configured category whose name or English name
  equals the given name up to case gives its abbreviation; otherwise one is derived from
  the name. \<open>string(word[0])\<close> is the one-byte string of an ASCII byte.
\<close>

fun lookup_category :: "CategoryItem list \<Rightarrow> string \<Rightarrow> string option" where
  "lookup_category [] categoryLower = None"
| "lookup_category (category # rest) categoryLower =
     (if ToLower (Category_Name category) = categoryLower
         \<or> ToLower (Category_English category) = categoryLower
      then Some (Category_Abbreviation category)
      else lookup_category rest categoryLower)"

definition GetCategoryAbbreviation :: "CategoryItem list \<Rightarrow> string \<Rightarrow> string" where
  "GetCategoryAbbreviation categories categoryName =
     (case lookup_category categories (ToLower categoryName) of
        Some a \<Rightarrow> a
      | None \<Rightarrow>
          (let words = Fields categoryName in
           if length words = 1 then
             (if length categoryName \<ge> 3 then ToUpper (take 3 categoryName)
              else ToUpper categoryName)
           else
             (let abbrev = concat (map (\<lambda>word. ToUpper (take 1 word)) words)
              in if length abbrev > 3 then take 3 abbrev else abbrev)))"

text \<open>
  \<open>ParseSKUID\<close>: the regular expression \<open>^([A-Z]{2,3})-(\d{4})$\<close> matches exactly the
  strings of two or three capital ASCII letters, a dash and four ASCII digits, so a match
  has 7 or 8 bytes and its groups are the bytes before the dash and the last four.
\<close>

definition ParseSKUID :: "string \<Rightarrow> (string \<times> go_int) option" where
  "ParseSKUID skuID =
     (let n = length skuID in
      if (n = 7 \<or> n = 8)
         \<and> list_all is_upper (take (n - 5) skuID)
         \<and> take 1 (drop (n - 5) skuID) = ''-''
         \<and> list_all is_digit (drop (n - 4) skuID)
      then
        (case Atoi (drop (n - 4) skuID) of
           None \<Rightarrow> None
         | Some number \<Rightarrow> Some (take (n - 5) skuID, number))
      else None)"

text \<open>The loop of \<open>GetNextSKUNumber\<close>, with \<open>maxNumber\<close> as its accumulator.\<close>

fun GetNextSKUNumber_loop :: "string \<Rightarrow> string list \<Rightarrow> go_int \<Rightarrow> go_int" where
  "GetNextSKUNumber_loop categoryAbbrev [] maxNumber = maxNumber"
| "GetNextSKUNumber_loop categoryAbbrev (sku # rest) maxNumber =
     (case ParseSKUID sku of
        None \<Rightarrow> GetNextSKUNumber_loop categoryAbbrev rest maxNumber
      | Some (parsedCategory, number) \<Rightarrow>
          if parsedCategory = categoryAbbrev \<and> sint number > sint maxNumber
          then GetNextSKUNumber_loop categoryAbbrev rest number
          else GetNextSKUNumber_loop categoryAbbrev rest maxNumber)"

definition GetNextSKUNumber :: "CategoryItem list \<Rightarrow> string \<Rightarrow> string list \<Rightarrow> go_int" where
  "GetNextSKUNumber categories category existingSKUs =
     GetNextSKUNumber_loop (GetCategoryAbbreviation categories category) existingSKUs 0"

text \<open>
  \<open>GenerateSKUID\<close> builds a format string first, \<open>fmt.Sprintf("%s-%%04d", abbrev)\<close>, which
  is the abbreviation followed by \<open>-%04d\<close>, and then formats the next number with it.
\<close>

definition GenerateSKUID :: "CategoryItem list \<Rightarrow> string \<Rightarrow> go_int \<Rightarrow> string option" where
  "GenerateSKUID categories category lastNumber =
     (let abbrev = GetCategoryAbbreviation categories category;
          nextNumber = lastNumber + 1;
          format = abbrev @ ''-%04d''
      in Sprintf_int format (Some nextNumber))"

section \<open>Sequence numbers of purchase codes (repository.PurchaseRepository)\<close>

record PurchaseItem =
  Item_ProductID :: string
  Item_ProductName :: string
  Item_ProductCode :: string
  Item_Quantity :: go_int
  Item_UnitPrice :: float64
  Item_TotalPrice :: float64

text \<open>Of a purchase document, the fields that the modelled functions read.\<close>

record Purchase =
  Purchase_ID :: string
  PurchaseCode :: string
  Purchase_Items :: "PurchaseItem list"
  Purchase_IsVAT :: bool

text \<open>
  The purchase collection as the query sees it: its documents, and whether the driver
  reports an error for the \<open>Find\<close> call or for decoding the document found.
\<close>

record PurchaseCollection =
  purchases :: "Purchase list"
  find_error :: bool
  decode_error :: bool

text \<open>
  The filter \<open>{purchaseCode: {$regex: "^" + prefix, $options: "i"}}\<close>. The database
  evaluates it; for a prefix without regular expression metacharacters (the prefixes
  \<open>PUR-VAT-YYMM\<close> and \<open>PUR-NV-YYMM\<close> that \<open>generatePurchaseID\<close> builds have none) it
  holds of the codes that start with the prefix, letters compared without case.
\<close>

definition matches_prefix :: "string \<Rightarrow> string \<Rightarrow> bool" where
  "matches_prefix prefix code = (ToLower (take (length prefix) code) = ToLower prefix)"

text \<open>
  \<open>Find\<close> with the filter, sorted by \<open>purchaseCode\<close> descending (strings compare byte by
  byte), limited to one document: the first document of the sorted result, if any.
\<close>

definition find_last_purchase :: "Purchase list \<Rightarrow> string \<Rightarrow> Purchase option" where
  "find_last_purchase docs prefix =
     (case rev (sort_key PurchaseCode (filter (\<lambda>d. matches_prefix prefix (PurchaseCode d)) docs)) of
        [] \<Rightarrow> None
      | d # _ \<Rightarrow> Some d)"

text \<open>
  \<open>GetNextSequenceNumber\<close> returns a number and an error; the second component is
  \<open>True\<close> when the error is not nil.
\<close>

definition GetNextSequenceNumber :: "PurchaseCollection \<Rightarrow> string \<Rightarrow> go_int \<times> bool" where
  "GetNextSequenceNumber coll prefix =
     (if find_error coll then (1, True)
      else
        (case find_last_purchase (purchases coll) prefix of
           None \<Rightarrow> (1, False)
         | Some lastPurchase \<Rightarrow>
             if decode_error coll then (1, True)
             else
               (let code = PurchaseCode lastPurchase in
                if code \<noteq> [] \<and> length code \<ge> 4 then
                  (case Atoi (drop (length code - 4) code) of
                     Some seq \<Rightarrow> (seq + 1, False)
                   | None \<Rightarrow> (1, False))
                else (1, False))))"

section \<open>Audit records and persistence (models/stock\_adjustment.go, repositories)\<close>

record StockAdjustment =
  Adj_ID :: string
  Adj_ProductID :: string
  Adj_ProductName :: string
  Adj_SKUID :: string
  Adj_AdjustmentType :: StockAdjustmentType
  Adj_StockType :: StockType
  Adj_Quantity :: go_int
  BeforeVATPurchased :: go_int
  BeforeVATSold :: go_int
  BeforeVATRemaining :: go_int
  BeforeNonVATPurchased :: go_int
  BeforeNonVATSold :: go_int
  BeforeNonVATRemaining :: go_int
  BeforeActualStock :: go_int
  AfterVATPurchased :: go_int
  AfterVATSold :: go_int
  AfterVATRemaining :: go_int
  AfterNonVATPurchased :: go_int
  AfterNonVATSold :: go_int
  AfterNonVATRemaining :: go_int
  AfterActualStock :: go_int
  Adj_SourceType :: SourceType
  Adj_SourceID :: "string option"
  Adj_SourceCode :: "string option"
  Adj_Notes :: "string option"
  Adj_CreatedBy :: "string option"
  Adj_CreatedAt :: Time


text \<open>
  An object id is kept as its 24 hexadecimal digits in lower case (what \<open>Hex()\<close>
  returns); the zero id is 24 zeros.
\<close>

definition NilObjectID :: string where
  "NilObjectID = replicate 24 CHR ''0''"

definition is_hex :: "char \<Rightarrow> bool" where
  "is_hex c = (is_digit c \<or> (CHR ''a'' \<le> c \<and> c \<le> CHR ''f'') \<or> (CHR ''A'' \<le> c \<and> c \<le> CHR ''F''))"

definition ObjectIDFromHex :: "string \<Rightarrow> string option" where
  "ObjectIDFromHex s = (if length s = 24 \<and> list_all is_hex s then Some (ToLower s) else None)"



text \<open>
  The struct literal that \<open>ToStockAdjustment\<close> and \<open>RecordStockChange\<close> both start from:
  the fields they do not set have Go's zero values.
\<close>

definition new_adjustment ::
  "Product \<Rightarrow> StockAdjustmentType \<Rightarrow> StockType \<Rightarrow> go_int \<Rightarrow> SourceType \<Rightarrow>
   string option \<Rightarrow> string option \<Rightarrow> string option \<Rightarrow> Time \<Rightarrow> StockAdjustment" where
  "new_adjustment product adjustmentType stockType quantity sourceType sourceID sourceCode notes now =
     \<lparr>Adj_ID = NilObjectID, Adj_ProductID = ID product, Adj_ProductName = Name product,
      Adj_SKUID = SKUID product, Adj_AdjustmentType = adjustmentType,
      Adj_StockType = stockType, Adj_Quantity = quantity,
      BeforeVATPurchased = 0, BeforeVATSold = 0, BeforeVATRemaining = 0,
      BeforeNonVATPurchased = 0, BeforeNonVATSold = 0, BeforeNonVATRemaining = 0,
      BeforeActualStock = 0,
      AfterVATPurchased = 0, AfterVATSold = 0, AfterVATRemaining = 0,
      AfterNonVATPurchased = 0, AfterNonVATSold = 0, AfterNonVATRemaining = 0,
      AfterActualStock = 0,
      Adj_SourceType = sourceType, Adj_SourceID = sourceID, Adj_SourceCode = sourceCode,
      Adj_Notes = notes, Adj_CreatedBy = None, Adj_CreatedAt = now\<rparr>"


text \<open>
  The database: the product and stock adjustment collections in insertion order, the
  number of object ids generated so far, and the lines printed to standard output. What
  lies outside the program is in \<open>Env\<close>: the ids the driver generates, and for each
  repository method whether the call fails for a reason of the driver's (network, server).
  Every reading of the clock within one request is the one value \<open>now\<close>.
\<close>

record DB =
  products :: "Product list"
  adjustments :: "StockAdjustment list"
  oid_count :: nat
  console :: "string list"

record Env =
  NewObjectID :: "nat \<Rightarrow> string"
  fail_product_GetByID :: "string \<Rightarrow> bool"
  fail_product_GetBySKUID :: "string \<Rightarrow> bool"
  fail_product_Update :: "string \<Rightarrow> bool"
  fail_adjustment_Create :: "StockAdjustment \<Rightarrow> bool"
  fail_adjustment_GetByID :: "string \<Rightarrow> bool"
  fail_adjustment_Delete :: "string \<Rightarrow> bool"

fun replace_first :: "('a \<Rightarrow> bool) \<Rightarrow> 'a \<Rightarrow> 'a list \<Rightarrow> 'a list" where
  "replace_first P y [] = []"
| "replace_first P y (x # xs) = (if P x then y # xs else x # replace_first P y xs)"

fun delete_first :: "('a \<Rightarrow> bool) \<Rightarrow> 'a list \<Rightarrow> 'a list" where
  "delete_first P [] = []"
| "delete_first P (x # xs) = (if P x then xs else x # delete_first P xs)"

text \<open>
  The repository methods. A result \<open>None\<close> is a non-nil error. \<open>ReplaceOne\<close> on an id that
  no document has changes nothing and is no error; \<open>Delete\<close> of the adjustment
  repository turns a delete count of 0 into an error.
\<close>

definition product_GetByID :: "Env \<Rightarrow> DB \<Rightarrow> string \<Rightarrow> Product option" where
  "product_GetByID env db pid =
     (case ObjectIDFromHex pid of
        None \<Rightarrow> None
      | Some objectID \<Rightarrow>
          if fail_product_GetByID env pid then None
          else find (\<lambda>p. ID p = objectID) (products db))"


definition product_Update :: "Env \<Rightarrow> DB \<Rightarrow> string \<Rightarrow> Product \<Rightarrow> DB option" where
  "product_Update env db pid product =
     (case ObjectIDFromHex pid of
        None \<Rightarrow> None
      | Some objectID \<Rightarrow>
          if fail_product_Update env pid then None
          else Some (db\<lparr>products := replace_first (\<lambda>p. ID p = objectID) product (products db)\<rparr>))"


definition adjustment_GetByID :: "Env \<Rightarrow> DB \<Rightarrow> string \<Rightarrow> StockAdjustment option" where
  "adjustment_GetByID env db aid =
     (case ObjectIDFromHex aid of
        None \<Rightarrow> None
      | Some objectID \<Rightarrow>
          if fail_adjustment_GetByID env aid then None
          else find (\<lambda>a. Adj_ID a = objectID) (adjustments db))"

definition adjustment_Delete :: "Env \<Rightarrow> DB \<Rightarrow> string \<Rightarrow> DB option" where
  "adjustment_Delete env db aid =
     (case ObjectIDFromHex aid of
        None \<Rightarrow> None
      | Some objectID \<Rightarrow>
          if fail_adjustment_Delete env aid then None
          else if find (\<lambda>a. Adj_ID a = objectID) (adjustments db) = None then None
          else Some (db\<lparr>adjustments := delete_first (\<lambda>a. Adj_ID a = objectID) (adjustments db)\<rparr>))"

section \<open>Transaction orchestrators (handlers)\<close>

text \<open>
  An HTTP response: an error with its message and status code, or the product written as
  JSON with status 200. A warning printed to standard output is recorded without the text
  of the error value that the source appends to it.
\<close>

datatype response = HttpError string nat | JsonProduct Product



text \<open>\<open>DeleteStockAdjustment\<close>: \<open>adjustmentID\<close> is the path variable.\<close>

definition DeleteStockAdjustment :: "Env \<Rightarrow> Time \<Rightarrow> DB \<Rightarrow> string \<Rightarrow> response \<times> DB" where
  "DeleteStockAdjustment env now db adjustmentID =
     (case adjustment_GetByID env db adjustmentID of
        None \<Rightarrow> (HttpError ''Stock adjustment not found'' 404, db)
      | Some adjustment \<Rightarrow>
          (case product_GetByID env db (Adj_ProductID adjustment) of
             None \<Rightarrow> (HttpError ''Product not found'' 500, db)
           | Some product \<Rightarrow>
               (let reverseType = (if Adj_AdjustmentType adjustment = AdjustmentTypeAdd
                                   then AdjustmentTypeReduce else AdjustmentTypeAdd);
                    product1 = ApplyStockAdjustment product reverseType
                                 (Adj_StockType adjustment) (Adj_Quantity adjustment);
                    product2 = product1\<lparr>UpdatedAt := now\<rparr>
                in case product_Update env db (ID product2) product2 of
                     None \<Rightarrow> (HttpError ''Failed to update product stock'' 500, db)
                   | Some db1 \<Rightarrow>
                       (case adjustment_Delete env db1 adjustmentID of
                          None \<Rightarrow> (HttpError ''Failed to delete stock adjustment'' 500, db1)
                        | Some db2 \<Rightarrow> (JsonProduct product2, db2)))))"




section \<open>Reference descriptions\<close>

text \<open>
  The spec's words for the result of \<open>GetNextSKUNumber\<close>, to compare the loop with: the
  numbers parsed from the SKUs whose letter prefix is the given abbreviation.
\<close>

definition matching_numbers :: "string \<Rightarrow> string list \<Rightarrow> int list" where
  "matching_numbers categoryAbbrev skus =
     map (\<lambda>(c, n). sint n) (filter (\<lambda>(c, n). c = categoryAbbrev) (List.map_filter ParseSKUID skus))"

section \<open>Concrete inputs\<close>

text \<open>A product without any history: every field has the zero value of its Go type.\<close>

definition blank_product :: Product where
  "blank_product =
     \<lparr>ID = NilObjectID, SKUID = [], Code = [], Name = [], Description = [], Color = [],
      Size = [], Category = [], QRData = [], ImageURL = None,
      Price = \<lparr>PurchaseVAT = zero_PriceInfo, PurchaseNonVAT = zero_PriceInfo,
               SaleVAT = zero_PriceInfo, SaleNonVAT = zero_PriceInfo, SalesTiers = []\<rparr>,
      Stock = zero_stock,
      CreatedAt = \<lparr>Unix = 0, Year = 0, Month = 0\<rparr>,
      UpdatedAt = \<lparr>Unix = 0, Year = 0, Month = 0\<rparr>\<rparr>"

definition january_2024 :: Time where
  "january_2024 = \<lparr>Unix = 1704067200, Year = 2024, Month = 1\<rparr>"

text \<open>
  A purchase collection with the codes of three purchases, two of them under the prefix
  \<open>PUR-VAT-6701\<close>.
\<close>

definition purchase_with_code :: "string \<Rightarrow> Purchase" where
  "purchase_with_code c =
     \<lparr>Purchase_ID = NilObjectID, PurchaseCode = c, Purchase_Items = [], Purchase_IsVAT = True\<rparr>"

definition sample_purchases :: PurchaseCollection where
  "sample_purchases =
     \<lparr>purchases = [purchase_with_code ''PUR-VAT-6701-0001'',
                   purchase_with_code ''PUR-VAT-6701-0003'',
                   purchase_with_code ''PUR-NV-6701-0009''],
      find_error = False, decode_error = False\<rparr>"

text \<open>
  A database with one product, which has had 10 pieces added to its VAT stock, and the
  audit record of that adjustment; an environment in which no call fails, and one in
  which every write of an audit record fails; a request to add 5 pieces of VAT stock.
\<close>

definition sample_product_id :: string where
  "sample_product_id = replicate 24 CHR ''a''"

definition sample_adjustment_id :: string where
  "sample_adjustment_id = replicate 24 CHR ''b''"

definition sample_product :: Product where
  "sample_product =
     ApplyStockAdjustment (blank_product\<lparr>ID := sample_product_id, SKUID := ''ABC-0001''\<rparr>)
       AdjustmentTypeAdd StockTypeVAT 10"

definition sample_adjustment :: StockAdjustment where
  "sample_adjustment =
     (new_adjustment sample_product AdjustmentTypeAdd StockTypeVAT 10 SourceTypeAdjustment
        None None None january_2024)\<lparr>Adj_ID := sample_adjustment_id\<rparr>"

definition sample_db :: DB where
  "sample_db =
     \<lparr>products = [sample_product], adjustments = [sample_adjustment],
      oid_count = 1, console = []\<rparr>"

definition reliable_env :: Env where
  "reliable_env =
     \<lparr>NewObjectID = (\<lambda>n. replicate 24 CHR ''c''),
      fail_product_GetByID = (\<lambda>k. False), fail_product_GetBySKUID = (\<lambda>k. False),
      fail_product_Update = (\<lambda>k. False), fail_adjustment_Create = (\<lambda>a. False),
      fail_adjustment_GetByID = (\<lambda>k. False), fail_adjustment_Delete = (\<lambda>k. False)\<rparr>"



section \<open>Properties of the stock ledger\<close>

lemmas stock_type_defs =
  AdjustmentTypeAdd_def AdjustmentTypeReduce_def
  StockTypeVAT_def StockTypeNonVAT_def StockTypeActualStock_def

lemmas apply_defs = ApplyStockAdjustment_def stockInfo_of_def stockInfo_upd_def Let_def

text \<open>
  Claim C1. For every product and every quantity \<open>q\<close> (the positive ones among them),
  \<open>ApplyStockAdjustment\<close> with adjustment type \<open>add\<close> and stock type \<open>vat\<close> increases
  \<open>vat.purchased\<close>, \<open>vat.remaining\<close> and \<open>stock.actualStock\<close> by exactly \<open>q\<close>, all three
  together. The sums are Go's: 64-bit and wrapping.
\<close>

theorem add_vat_increases_all_three:
  "Purchased (VAT (Stock (ApplyStockAdjustment p AdjustmentTypeAdd StockTypeVAT q)))
     = Purchased (VAT (Stock p)) + q
   \<and> Remaining (VAT (Stock (ApplyStockAdjustment p AdjustmentTypeAdd StockTypeVAT q)))
     = Remaining (VAT (Stock p)) + q
   \<and> ActualStock (Stock (ApplyStockAdjustment p AdjustmentTypeAdd StockTypeVAT q))
     = ActualStock (Stock p) + q"
  by (simp add: apply_defs stock_type_defs)

text \<open>
  Read as signed numbers, sums and differences of counters are the mathematical ones as
  long as they stay in the range of \<open>int\<close>.
\<close>

lemma sint_add_no_overflow:
  fixes r q :: go_int
  assumes "- (2 ^ 63) \<le> sint r + sint q" "sint r + sint q < 2 ^ 63"
  shows "sint (r + q) = sint r + sint q"
  using assms by (simp add: sint_word_ariths signed_take_bit_int_eq_self)

lemma sint_sub_no_overflow:
  fixes r q :: go_int
  assumes "- (2 ^ 63) \<le> sint r - sint q" "sint r - sint q < 2 ^ 63"
  shows "sint (r - q) = sint r - sint q"
  using assms by (simp add: sint_word_ariths signed_take_bit_int_eq_self)

text \<open>
  Claim C2. From a product whose stock counters are all zero, \<open>add\<close> of 10 to the VAT
  stock followed by \<open>reduce\<close> of 15 gives \<open>vat.purchased = 10\<close>, \<open>vat.sold = 15\<close>,
  \<open>vat.remaining = -5\<close> and \<open>actualStock = -5\<close>. The reduce step subtracts the quantity
  from \<open>remaining\<close> and \<open>actualStock\<close> whatever their values are: nothing is clamped at
  zero, and the function has no error result.
\<close>

theorem add_10_then_reduce_15:
  "(let p' = ApplyStockAdjustment
               (ApplyStockAdjustment (p\<lparr>Stock := zero_stock\<rparr>) AdjustmentTypeAdd StockTypeVAT 10)
               AdjustmentTypeReduce StockTypeVAT 15
    in Purchased (VAT (Stock p')) = 10 \<and> Sold (VAT (Stock p')) = 15
       \<and> sint (Remaining (VAT (Stock p'))) = - 5 \<and> sint (ActualStock (Stock p')) = - 5)
   \<and> Remaining (VAT (Stock (ApplyStockAdjustment p AdjustmentTypeReduce StockTypeVAT q)))
       = Remaining (VAT (Stock p)) - q
   \<and> ActualStock (Stock (ApplyStockAdjustment p AdjustmentTypeReduce StockTypeVAT q))
       = ActualStock (Stock p) - q"
  by (simp add: apply_defs stock_type_defs zero_stock_def)

lemma apply_keeps_balance:
  "Purchased (VAT (Stock (ApplyStockAdjustment p a st q)))
     - Sold (VAT (Stock (ApplyStockAdjustment p a st q)))
     - Remaining (VAT (Stock (ApplyStockAdjustment p a st q)))
   = Purchased (VAT (Stock p)) - Sold (VAT (Stock p)) - Remaining (VAT (Stock p))"
  "Purchased (NonVAT (Stock (ApplyStockAdjustment p a st q)))
     - Sold (NonVAT (Stock (ApplyStockAdjustment p a st q)))
     - Remaining (NonVAT (Stock (ApplyStockAdjustment p a st q)))
   = Purchased (NonVAT (Stock p)) - Sold (NonVAT (Stock p)) - Remaining (NonVAT (Stock p))"
  by (simp_all add: apply_defs)

lemma balance_holds_iff:
  fixes a b c a' b' c' :: go_int
  assumes "a' - b' - c' = a - b - c"
  shows "(a' - b' = c') = (a - b = c)"
proof -
  have "(a' - b' = c') = (a' - b' - c' = 0)" by simp
  also have "\<dots> = (a - b - c = 0)" using assms by simp
  also have "\<dots> = (a - b = c)" by simp
  finally show ?thesis .
qed

text \<open>
  Claim C10. Every call of \<open>ApplyStockAdjustment\<close>, whatever the adjustment type, the
  stock type and the quantity, leaves \<open>purchased - sold - remaining\<close> unchanged, for the
  VAT and for the non-VAT stock info; so \<open>purchased - sold = remaining\<close> holds after the
  call exactly when it held before.
\<close>

theorem ledger_balance_unchanged:
  "Purchased (VAT (Stock (ApplyStockAdjustment p a st q)))
     - Sold (VAT (Stock (ApplyStockAdjustment p a st q)))
     - Remaining (VAT (Stock (ApplyStockAdjustment p a st q)))
   = Purchased (VAT (Stock p)) - Sold (VAT (Stock p)) - Remaining (VAT (Stock p))
   \<and> Purchased (NonVAT (Stock (ApplyStockAdjustment p a st q)))
     - Sold (NonVAT (Stock (ApplyStockAdjustment p a st q)))
     - Remaining (NonVAT (Stock (ApplyStockAdjustment p a st q)))
   = Purchased (NonVAT (Stock p)) - Sold (NonVAT (Stock p)) - Remaining (NonVAT (Stock p))
   \<and> (Purchased (VAT (Stock (ApplyStockAdjustment p a st q)))
        - Sold (VAT (Stock (ApplyStockAdjustment p a st q)))
      = Remaining (VAT (Stock (ApplyStockAdjustment p a st q))))
     = (Purchased (VAT (Stock p)) - Sold (VAT (Stock p)) = Remaining (VAT (Stock p)))
   \<and> (Purchased (NonVAT (Stock (ApplyStockAdjustment p a st q)))
        - Sold (NonVAT (Stock (ApplyStockAdjustment p a st q)))
      = Remaining (NonVAT (Stock (ApplyStockAdjustment p a st q))))
     = (Purchased (NonVAT (Stock p)) - Sold (NonVAT (Stock p)) = Remaining (NonVAT (Stock p)))"
  using apply_keeps_balance [of p a st q]
    balance_holds_iff [OF apply_keeps_balance(1) [of p a st q]]
    balance_holds_iff [OF apply_keeps_balance(2) [of p a st q]]
  by blast

section \<open>Properties of the price ledger\<close>

lemmas round_defs = round2_def float64_to_int_def int_to_float64_def



lemma UpdatePrice_bucket:
  "PurchaseVAT (Price (UpdatePrice p x True True now))
     = updatePriceInfo (PurchaseVAT (Price p)) x (Year now) (Month now)"
  by (simp add: UpdatePrice_def Let_def)




lemma updatePriceInfo_Average:
  "Average (updatePriceInfo b x y m)
     = round2 (if Average b = 0 then x else (Average b + x) / 2)"
  by (simp add: updatePriceInfo_def Let_def)








text \<open>
  Claim C4. The rounding of the code on the input \<open>-1\<close>: the scaled sum \<open>-99.5\<close> is cut
  towards zero to \<open>-99\<close>, so the result is \<open>-0.99\<close>, where \<open>floor (x * 100 + 0.5) / 100\<close>
  is \<open>-1\<close>. A first \<open>UpdatePrice\<close> with the price \<open>-1\<close> stores the average \<open>-0.99\<close>.
\<close>

theorem round2_of_minus_one:
  "round2 (- 1) = - 99 / 100
   \<and> real_of_int \<lfloor>(- 1 :: real) * 100 + 0.5\<rfloor> / 100 = - 1
   \<and> Average (PurchaseVAT (Price
        (UpdatePrice (p\<lparr>Price := (Price p)\<lparr>PurchaseVAT := zero_PriceInfo\<rparr>\<rparr>) (- 1) True True now)))
      = - 99 / 100"
  by (simp add: UpdatePrice_bucket updatePriceInfo_Average zero_PriceInfo_def round_defs)

text \<open>
  Claim C5. \<open>UpdatePrice\<close> with \<open>isPurchase = true\<close> and \<open>isVAT = false\<close> leaves the
  \<open>saleVAT\<close>, \<open>saleNonVAT\<close> and \<open>purchaseVAT\<close> buckets as they were, for every product and
  price; the \<open>purchaseNonVAT\<close> bucket is the only part of the product that can differ.
\<close>

theorem update_price_purchase_nonvat_frame:
  "SaleVAT (Price (UpdatePrice p x False True now)) = SaleVAT (Price p)
   \<and> SaleNonVAT (Price (UpdatePrice p x False True now)) = SaleNonVAT (Price p)
   \<and> PurchaseVAT (Price (UpdatePrice p x False True now)) = PurchaseVAT (Price p)
   \<and> UpdatePrice p x False True now
       = p\<lparr>Price := (Price p)\<lparr>PurchaseNonVAT :=
             PurchaseNonVAT (Price (UpdatePrice p x False True now))\<rparr>\<rparr>"
  by (simp add: UpdatePrice_def Let_def)

section \<open>Properties of the code generator\<close>

lemma matching_numbers_Nil: "matching_numbers ab [] = []"
  by (simp add: matching_numbers_def)

lemma matching_numbers_Cons:
  "matching_numbers ab (sku # skus) =
     (case ParseSKUID sku of
        None \<Rightarrow> matching_numbers ab skus
      | Some (c, n) \<Rightarrow> if c = ab then sint n # matching_numbers ab skus
                       else matching_numbers ab skus)"
  by (simp add: matching_numbers_def split: option.splits)

lemma Max_insert_smaller:
  fixes a b :: int
  assumes "finite S" "a \<le> b"
  shows "Max (insert b (insert a S)) = Max (insert b S)"
proof (cases "S = {}")
  case True
  then show ?thesis using assms(2) by simp
next
  case False
  have "Max (insert b (insert a S)) = max b (max a (Max S))"
    using assms(1) False by simp
  also have "\<dots> = max b (Max S)" using assms(2) by linarith
  also have "\<dots> = Max (insert b S)" using assms(1) False by simp
  finally show ?thesis .
qed

lemma GetNextSKUNumber_loop_max:
  "sint (GetNextSKUNumber_loop ab skus m) = Max (set (sint m # matching_numbers ab skus))"
proof (induction skus arbitrary: m)
  case Nil
  then show ?case by (simp add: matching_numbers_Nil)
next
  case (Cons sku skus)
  show ?case
  proof (cases "ParseSKUID sku")
    case None
    then show ?thesis using Cons.IH [of m] by (simp add: matching_numbers_Cons)
  next
    case (Some cn)
    obtain c n where cn: "cn = (c, n)" by (cases cn)
    show ?thesis
    proof (cases "c = ab \<and> sint n > sint m")
      case True
      let ?T = "insert (sint n) (set (matching_numbers ab skus))"
      have ge: "sint n \<le> Max ?T"
        by (rule Max_ge) simp_all
      have le: "sint m \<le> Max ?T" using ge True by linarith
      have "Max (insert (sint m) ?T) = max (sint m) (Max ?T)"
        by (rule Max_insert) simp_all
      also have "\<dots> = Max ?T" using le by (rule max_absorb2)
      finally have "Max (insert (sint m) ?T) = Max ?T" .
      then show ?thesis using True Some cn Cons.IH [of n]
        by (simp add: matching_numbers_Cons)
    next
      case False
      show ?thesis
      proof (cases "c = ab")
        case True
        then have le: "sint n \<le> sint m" using False by simp
        have "Max (insert (sint m) (insert (sint n) (set (matching_numbers ab skus))))
              = Max (insert (sint m) (set (matching_numbers ab skus)))"
          using le by (intro Max_insert_smaller) simp_all
        then show ?thesis using True le Some cn Cons.IH [of m]
          by (simp add: matching_numbers_Cons)
      next
        case F: False
        then show ?thesis using Some cn Cons.IH [of m]
          by (simp add: matching_numbers_Cons)
      qed
    qed
  qed
qed

text \<open>
  \<open>GetNextSKUNumber\<close> returns the greatest number parsed from the existing SKUs whose
  letter prefix is the abbreviation of the category, and 0 when there is none.
\<close>

lemma GetNextSKUNumber_max:
  "sint (GetNextSKUNumber categories category existingSKUs)
     = Max (set (0 # matching_numbers (GetCategoryAbbreviation categories category) existingSKUs))"
  using GetNextSKUNumber_loop_max [of "GetCategoryAbbreviation categories category" existingSKUs 0]
  by (simp add: GetNextSKUNumber_def)

text \<open>
  For an abbreviation without a percent sign, \<open>GenerateSKUID\<close> returns the abbreviation,
  a dash and the next number padded with zeros to four digits; with the abbreviation
  \<open>ABC\<close> and the greatest existing number 42 that is \<open>ABC-0043\<close>.
\<close>

lemma Sprintf_int_plain:
  "CHR ''%'' \<notin> set abbrev \<Longrightarrow>
   Sprintf_int (abbrev @ ''-%04d'') (Some n) = Some (abbrev @ ''-'' @ fmt_04d n)"
  by (induction abbrev) auto

lemma GenerateSKUID_plain:
  "CHR ''%'' \<notin> set (GetCategoryAbbreviation categories category) \<Longrightarrow>
   GenerateSKUID categories category lastNumber
     = Some (GetCategoryAbbreviation categories category @ ''-'' @ fmt_04d (lastNumber + 1))"
  by (simp add: GenerateSKUID_def Let_def Sprintf_int_plain)

lemma fmt_04d_43: "fmt_04d 43 = ''0043''"
  by code_simp

lemma GenerateSKUID_ABC:
  "GetCategoryAbbreviation categories category = ''ABC'' \<Longrightarrow>
   sint (GetNextSKUNumber categories category existingSKUs) = 42 \<Longrightarrow>
   GenerateSKUID categories category (GetNextSKUNumber categories category existingSKUs)
     = Some ''ABC-0043''"
proof -
  assume a: "GetCategoryAbbreviation categories category = ''ABC''"
    and n: "sint (GetNextSKUNumber categories category existingSKUs) = 42"
  have "sint (GetNextSKUNumber categories category existingSKUs) = sint (42 :: go_int)"
    using n by simp
  then have "GetNextSKUNumber categories category existingSKUs = 42"
    by (rule signed_word_eqI)
  then show ?thesis using a GenerateSKUID_plain [of categories category 42] fmt_04d_43
    by simp
qed

text \<open>
  Claim C8. The abbreviation is spliced into the format string, so a percent sign in it
  is read as the start of a verb. The category \<open>%%\<close>, which no configuration matches, has
  the derived abbreviation \<open>%%\<close>; with the last number 42 the SKU id is \<open>%-0043\<close>, which
  is not the abbreviation followed by \<open>-0043\<close>.
\<close>

theorem GenerateSKUID_percent:
  "GetCategoryAbbreviation [] ''%%'' = ''%%''
   \<and> GenerateSKUID [] ''%%'' 42 = Some ''%-0043''
   \<and> GenerateSKUID [] ''%%'' 42 \<noteq> Some (GetCategoryAbbreviation [] ''%%'' @ ''-0043'')"
  by code_simp


section \<open>Properties of the sequence numbers\<close>

lemma last_sorted_Max:
  fixes xs :: "('a :: linorder) list"
  assumes "sorted xs" "xs \<noteq> []"
  shows "last xs = Max (set xs)"
proof -
  have "\<forall>y \<in> set xs. y \<le> last xs"
    using assms by (induction xs) (auto simp: sorted_simps(2))
  moreover have "last xs \<in> set xs" using assms(2) by simp
  ultimately show ?thesis by (intro Max_eqI [symmetric]) simp_all
qed

lemma sort_key_Nil_iff: "(sort_key f xs = []) = (xs = [])"
proof -
  have "length (sort_key f xs) = length xs" by simp
  then show ?thesis by (metis length_0_conv)
qed

lemma find_last_purchase_None:
  "(find_last_purchase docs prefix = None)
     = (filter (\<lambda>d. matches_prefix prefix (PurchaseCode d)) docs = [])"
proof -
  let ?ss = "sort_key PurchaseCode (filter (\<lambda>d. matches_prefix prefix (PurchaseCode d)) docs)"
  have "(find_last_purchase docs prefix = None) = (rev ?ss = [])"
    by (simp add: find_last_purchase_def split: list.splits)
  also have "\<dots> = (?ss = [])" by simp
  also have "\<dots> = (filter (\<lambda>d. matches_prefix prefix (PurchaseCode d)) docs = [])"
    by (rule sort_key_Nil_iff)
  finally show ?thesis .
qed

lemma find_last_purchase_Some:
  assumes "find_last_purchase docs prefix = Some d"
  shows "PurchaseCode d
           = Max {c \<in> PurchaseCode ` set docs. matches_prefix prefix c}"
proof -
  let ?ms = "filter (\<lambda>d. matches_prefix prefix (PurchaseCode d)) docs"
  let ?ss = "sort_key PurchaseCode ?ms"
  have ne: "?ss \<noteq> []" using assms
    by (auto simp: find_last_purchase_def split: list.splits)
  have d: "d = last ?ss" using assms ne
    by (auto simp: find_last_purchase_def hd_rev split: list.splits dest: arg_cong [where f = hd])
  have "PurchaseCode d = last (map PurchaseCode ?ss)" using d ne by (simp add: last_map)
  also have "\<dots> = Max (set (map PurchaseCode ?ss))"
    using ne by (intro last_sorted_Max) simp_all
  also have "set (map PurchaseCode ?ss) = {c \<in> PurchaseCode ` set docs. matches_prefix prefix c}"
    by auto
  finally show ?thesis .
qed

lemma matching_codes_empty:
  "({c \<in> PurchaseCode ` set docs. matches_prefix prefix c} = {})
     = (filter (\<lambda>d. matches_prefix prefix (PurchaseCode d)) docs = [])"
  by (auto simp: filter_empty_conv)

text \<open>
  Claim C7. When the driver reports no error, \<open>GetNextSequenceNumber prefix\<close> looks at
  the stored codes that match \<open>^prefix\<close> without regard to case. If there is none it
  returns 1. Otherwise it takes the greatest of them in the order of strings; if its last
  four bytes parse as an integer \<open>s\<close> it returns \<open>s + 1\<close>, and if they do not (or the code
  has fewer than four bytes) it returns 1.
\<close>

theorem next_sequence_number:
  assumes "\<not> find_error coll" "\<not> decode_error coll"
  shows "GetNextSequenceNumber coll prefix =
     (let M = {c \<in> PurchaseCode ` set (purchases coll). matches_prefix prefix c} in
      if M = {} then (1, False)
      else if 4 \<le> length (Max M) then
        (case Atoi (drop (length (Max M) - 4) (Max M)) of
           Some s \<Rightarrow> (s + 1, False)
         | None \<Rightarrow> (1, False))
      else (1, False))"
proof (cases "find_last_purchase (purchases coll) prefix")
  case None
  have f: "filter (\<lambda>d. matches_prefix prefix (PurchaseCode d)) (purchases coll) = []"
    using None by (simp only: find_last_purchase_None)
  have e: "{c \<in> PurchaseCode ` set (purchases coll). matches_prefix prefix c} = {}"
    by (subst matching_codes_empty) (rule f)
  show ?thesis unfolding Let_def e using None assms
    by (simp add: GetNextSequenceNumber_def)
next
  case (Some d)
  have f: "filter (\<lambda>d. matches_prefix prefix (PurchaseCode d)) (purchases coll) \<noteq> []"
    using Some find_last_purchase_None [of "purchases coll" prefix] by simp
  have ne: "({c \<in> PurchaseCode ` set (purchases coll). matches_prefix prefix c} = {}) = False"
    by (subst matching_codes_empty) (simp only: f)
  have mx: "Max {c \<in> PurchaseCode ` set (purchases coll). matches_prefix prefix c} = PurchaseCode d"
    using find_last_purchase_Some [OF Some] by (rule sym)
  show ?thesis unfolding Let_def ne mx using assms Some
    by (auto simp: GetNextSequenceNumber_def Let_def split: option.splits)
qed


theorem next_sequence_number_witness:
  "\<not> find_error sample_purchases \<and> \<not> decode_error sample_purchases
   \<and> GetNextSequenceNumber sample_purchases ''PUR-VAT-6701'' = (4, False)"
proof -
  have h1: "\<not> find_error sample_purchases" by (simp add: sample_purchases_def)
  have h2: "\<not> decode_error sample_purchases" by (simp add: sample_purchases_def)
  have M: "{c \<in> PurchaseCode ` set (purchases sample_purchases). matches_prefix ''PUR-VAT-6701'' c}
           = {''PUR-VAT-6701-0001'', ''PUR-VAT-6701-0003''}"
    by code_simp
  have Mx: "Max {''PUR-VAT-6701-0001'', ''PUR-VAT-6701-0003''} = ''PUR-VAT-6701-0003''"
    by code_simp
  have A: "Atoi ''0003'' = Some 3" by code_simp
  show ?thesis
    using next_sequence_number [OF h1 h2, of "''PUR-VAT-6701''"] h1 h2
    by (simp add: M Mx A Let_def)
qed

section \<open>Properties of the orchestrators\<close>

lemma ApplyStockAdjustment_ID [simp]: "ID (ApplyStockAdjustment p a st q) = ID p"
  by (simp add: ApplyStockAdjustment_def Let_def)

lemma reversal_of_add:
  assumes "stockType \<noteq> StockTypeActualStock"
  shows "(let p2 = ApplyStockAdjustment (ApplyStockAdjustment p AdjustmentTypeAdd stockType q)
                     AdjustmentTypeReduce stockType q
          in Remaining (stockInfo_of stockType (Stock p2)) = Remaining (stockInfo_of stockType (Stock p))
             \<and> ActualStock (Stock p2) = ActualStock (Stock p)
             \<and> Purchased (stockInfo_of stockType (Stock p2))
                 = Purchased (stockInfo_of stockType (Stock p)) + q
             \<and> Sold (stockInfo_of stockType (Stock p2)) = Sold (stockInfo_of stockType (Stock p)) + q)"
  using assms by (simp add: apply_defs stock_type_defs)

text \<open>
  Claim C6. \<open>DeleteStockAdjustment\<close> reads the adjustment record and the product as it is
  stored now, applies \<open>ApplyStockAdjustment\<close> to that product with the adjustment type
  flipped (\<open>add\<close> becomes \<open>reduce\<close>, everything else becomes \<open>add\<close>) and the record's
  stock type and quantity, stores the product and deletes the record. For a stock type
  other than \<open>actualstock\<close> (\<open>vat\<close>, \<open>nonvat\<close>), a reduce after an add of the same quantity
  brings \<open>remaining\<close> and \<open>actualStock\<close> back to their values before the add, while
  \<open>purchased\<close> and \<open>sold\<close> each end up increased by the quantity.
\<close>

theorem delete_reverses_by_reapplying:
  assumes "adjustment_GetByID env db adjustmentID = Some adj"
    and "product_GetByID env db (Adj_ProductID adj) = Some product"
    and "product_Update env db (ID product)
           ((ApplyStockAdjustment product
               (if Adj_AdjustmentType adj = AdjustmentTypeAdd
                then AdjustmentTypeReduce else AdjustmentTypeAdd)
               (Adj_StockType adj) (Adj_Quantity adj))\<lparr>UpdatedAt := now\<rparr>) = Some db1"
    and "adjustment_Delete env db1 adjustmentID = Some db2"
    and "stockType \<noteq> StockTypeActualStock"
  shows "DeleteStockAdjustment env now db adjustmentID
           = (JsonProduct
                ((ApplyStockAdjustment product
                    (if Adj_AdjustmentType adj = AdjustmentTypeAdd
                     then AdjustmentTypeReduce else AdjustmentTypeAdd)
                    (Adj_StockType adj) (Adj_Quantity adj))\<lparr>UpdatedAt := now\<rparr>), db2)
         \<and> (let p2 = ApplyStockAdjustment (ApplyStockAdjustment p AdjustmentTypeAdd stockType q)
                        AdjustmentTypeReduce stockType q
             in Remaining (stockInfo_of stockType (Stock p2))
                  = Remaining (stockInfo_of stockType (Stock p))
                \<and> ActualStock (Stock p2) = ActualStock (Stock p)
                \<and> Purchased (stockInfo_of stockType (Stock p2))
                    = Purchased (stockInfo_of stockType (Stock p)) + q
                \<and> Sold (stockInfo_of stockType (Stock p2))
                    = Sold (stockInfo_of stockType (Stock p)) + q)"
proof -
  have "DeleteStockAdjustment env now db adjustmentID
           = (JsonProduct
                ((ApplyStockAdjustment product
                    (if Adj_AdjustmentType adj = AdjustmentTypeAdd
                     then AdjustmentTypeReduce else AdjustmentTypeAdd)
                    (Adj_StockType adj) (Adj_Quantity adj))\<lparr>UpdatedAt := now\<rparr>), db2)"
    using assms(1-4) by (simp add: DeleteStockAdjustment_def Let_def)
  then show ?thesis using reversal_of_add [OF assms(5), of p q] by simp
qed


theorem delete_reverses_by_reapplying_witness:
  "(case fst (DeleteStockAdjustment reliable_env january_2024 sample_db sample_adjustment_id) of
      JsonProduct p' \<Rightarrow>
        Purchased (VAT (Stock p')) = 10 \<and> Sold (VAT (Stock p')) = 10
        \<and> Remaining (VAT (Stock p')) = 0 \<and> ActualStock (Stock p') = 0
    | HttpError msg code \<Rightarrow> False)
   \<and> adjustments (snd (DeleteStockAdjustment reliable_env january_2024 sample_db
         sample_adjustment_id)) = []"
proof -
  let ?reversed = "(ApplyStockAdjustment sample_product
                      (if Adj_AdjustmentType sample_adjustment = AdjustmentTypeAdd
                       then AdjustmentTypeReduce else AdjustmentTypeAdd)
                      (Adj_StockType sample_adjustment) (Adj_Quantity sample_adjustment))
                   \<lparr>UpdatedAt := january_2024\<rparr>"
  let ?db1 = "sample_db\<lparr>products := [?reversed]\<rparr>"
  let ?db2 = "?db1\<lparr>adjustments := []\<rparr>"
  have h1: "adjustment_GetByID reliable_env sample_db sample_adjustment_id = Some sample_adjustment"
    by code_simp
  have h2: "product_GetByID reliable_env sample_db (Adj_ProductID sample_adjustment)
              = Some sample_product"
    by code_simp
  have h3: "product_Update reliable_env sample_db (ID sample_product) ?reversed = Some ?db1"
    by code_simp
  have h4: "adjustment_Delete reliable_env ?db1 sample_adjustment_id = Some ?db2"
    by code_simp
  have h5: "StockTypeVAT \<noteq> StockTypeActualStock" by code_simp
  have r: "Purchased (VAT (Stock ?reversed)) = 10 \<and> Sold (VAT (Stock ?reversed)) = 10
           \<and> Remaining (VAT (Stock ?reversed)) = 0 \<and> ActualStock (Stock ?reversed) = 0"
    by code_simp
  show ?thesis
    using delete_reverses_by_reapplying [OF h1 h2 h3 h4 h5, of blank_product 10] r
    by simp
qed















end
